theory Spec2Isabelle
  imports Complex_Main
begin

section \<open>Python values, exceptions and the shared context\<close>

text \<open>
  The fragment of Python values that operator hooks exchange with \<open>Operator.__call__\<close>:
  \<open>None\<close>, booleans, numbers, strings, bytes and dictionaries with string keys. A
  function that falls off its end returns \<open>None\<close>.
\<close>

datatype pyval =
    PyNone
  | PyBool bool
  | PyInt int
  | PyFloat real
  | PyStr string
  | PyBytes string
  | PyDict "(string \<times> pyval) list"

text \<open>Python truthiness, as tested by \<open>if poll:\<close>.\<close>

fun truthy :: "pyval \<Rightarrow> bool" where
  "truthy PyNone = False"
| "truthy (PyBool b) = b"
| "truthy (PyInt i) = (i \<noteq> 0)"
| "truthy (PyFloat r) = (r \<noteq> 0)"
| "truthy (PyStr s) = (s \<noteq> [])"
| "truthy (PyBytes b) = (b \<noteq> [])"
| "truthy (PyDict d) = (d \<noteq> [])"

text \<open>
  Exceptions are values. \<open>Raised n\<close> is any exception of class \<open>n\<close> raised by
  user code (a hook of an operator).
\<close>

datatype py_exception =
    AttributeError string
  | IndexError
  | RecursionError
  | Raised string

text \<open>
  \<open>vpy.types.Context\<close>: the fields an operator invocation reads or writes.
  \<open>last_report\<close> is \<open>None\<close> until the first report.
\<close>

record Context =
  num_changes :: int
  last_report :: "(string \<times> string) option"
  last_report_time :: real

section \<open>Operators\<close>

text \<open>
  A hook (\<open>poll\<close>, \<open>execute\<close>) is arbitrary user code: it receives the context, the
  positional and the keyword arguments, may mutate the context, and either returns a value
  or raises. The context it leaves behind is kept in both cases.
\<close>

type_synonym hook =
  "Context \<Rightarrow> pyval list \<Rightarrow> (string \<rightharpoonup> pyval) \<Rightarrow> Context \<times> (py_exception + pyval)"

text \<open>
  \<open>vpy.types.Operator\<close>. \<open>min_args\<close> and \<open>max_args\<close> default to \<open>None\<close>; the two
  methods a subclass overrides are fields of the record.
\<close>

record Operator =
  label :: string
  op_description :: string
  idname :: string
  min_args :: "int option"
  max_args :: "int option"
  kwargs_include :: "string list"
  kwargs_exclude :: "string list"
  kboard_shortcuts :: "(string \<times> bool \<times> bool \<times> bool) list"
  poll :: hook
  execute :: hook

text \<open>\<open>Operator.poll\<close> and \<open>Operator.execute\<close> of the base class.\<close>

definition Operator_poll :: hook where
  "Operator_poll ctx args kwargs = (ctx, Inr (PyBool True))"

definition Operator_execute :: hook where
  "Operator_execute ctx args kwargs = (ctx, Inr (PyStr ''FINISHED''))"

text \<open>
  \<open>Operator.report\<close>: overwrites the last report and its time. \<open>now\<close> is the reading
  of \<open>time.time()\<close> at that moment.
\<close>

definition report :: "Context \<Rightarrow> string \<Rightarrow> string \<Rightarrow> real \<Rightarrow> Context" where
  "report ctx rtype msg now = ctx\<lparr>last_report := Some (rtype, msg), last_report_time := now\<rparr>"

text \<open>
  \<open>Operator.__call__\<close>. The result is the context after the call and either the
  exception that escaped or the value returned. An invocation reports at most once, so one
  clock reading \<open>now\<close> is enough. The two \<open>for\<close> loops return at the first offending
  name, which is what \<open>find\<close> computes. Where \<open>execute\<close> returns a valid status the
  Python function reaches its end without a \<open>return\<close>, so the call returns \<open>None\<close>;
  \<open>execute\<close> is called outside the \<open>try\<close>, so what it raises escapes.
\<close>

definition Operator_call ::
  "Operator \<Rightarrow> Context \<Rightarrow> pyval list \<Rightarrow> (string \<rightharpoonup> pyval) \<Rightarrow> real
     \<Rightarrow> Context \<times> (py_exception + pyval)" where
  "Operator_call self ctx args kwargs now =
    (let ctx1 = ctx\<lparr>num_changes := num_changes ctx + 1\<rparr> in
     if (case min_args self of None \<Rightarrow> False | Some m \<Rightarrow> int (length args) < m) then
       (report ctx1 ''ERROR'' (''Too few arguments in Operator '' @ idname self) now,
        Inr (PyStr ''CANCELLED''))
     else if (case max_args self of None \<Rightarrow> False | Some m \<Rightarrow> int (length args) > m) then
       (report ctx1 ''ERROR'' (''Too many arguments in Operator '' @ idname self) now,
        Inr (PyStr ''CANCELLED''))
     else
       (case find (\<lambda>arg. kwargs arg = None) (kwargs_include self) of
          Some arg \<Rightarrow>
            (report ctx1 ''ERROR''
               (''Must include kwarg '' @ arg @ '' in Operator '' @ idname self) now,
             Inr (PyStr ''CANCELLED''))
        | None \<Rightarrow>
       (case find (\<lambda>arg. kwargs arg \<noteq> None) (kwargs_exclude self) of
          Some arg \<Rightarrow>
            (report ctx1 ''ERROR''
               (''Must exclude kwarg '' @ arg @ '' in Operator '' @ idname self) now,
             Inr (PyStr ''CANCELLED''))
        | None \<Rightarrow>
       (case poll self ctx1 args kwargs of (ctx2, pr) \<Rightarrow>
          if truthy (case pr of Inl e \<Rightarrow> PyBool False | Inr p \<Rightarrow> p) then
            (case execute self ctx2 args kwargs of
               (ctx3, Inl e) \<Rightarrow> (ctx3, Inl e)
             | (ctx3, Inr val) \<Rightarrow>
                 if val \<noteq> PyStr ''FINISHED'' \<and> val \<noteq> PyStr ''CANCELLED'' then
                   (report ctx3 ''ERROR''
                      (''Invalid return in Operator '' @ idname self @ '' call.'') now,
                    Inr (PyStr ''FINISHED''))
                 else (ctx3, Inr PyNone))
          else
            (report ctx2 ''ERROR'' (''Poll in Operator '' @ idname self @ '' failed.'') now,
             Inr (PyStr ''CANCELLED''))))))"

text \<open>
  The four validation checks of \<open>__call__\<close>, as one predicate: too few positional
  arguments, too many, a required keyword missing, a forbidden keyword present.
\<close>

definition validation_fails :: "Operator \<Rightarrow> pyval list \<Rightarrow> (string \<rightharpoonup> pyval) \<Rightarrow> bool" where
  "validation_fails self args kwargs =
    ((case min_args self of None \<Rightarrow> False | Some m \<Rightarrow> int (length args) < m)
     \<or> (case max_args self of None \<Rightarrow> False | Some m \<Rightarrow> int (length args) > m)
     \<or> find (\<lambda>arg. kwargs arg = None) (kwargs_include self) \<noteq> None
     \<or> find (\<lambda>arg. kwargs arg \<noteq> None) (kwargs_exclude self) \<noteq> None)"

text \<open>An operator that overrides nothing: the base class with an identifier.\<close>

definition base_operator :: Operator where
  "base_operator =
    \<lparr>label = ''Base'', op_description = '''', idname = ''test.base'',
     min_args = None, max_args = None, kwargs_include = [], kwargs_exclude = [],
     kboard_shortcuts = [], poll = Operator_poll, execute = Operator_execute\<rparr>"

definition ctx0 :: Context where
  "ctx0 = \<lparr>num_changes = 0, last_report = None, last_report_time = 0\<rparr>"


text \<open>
  Operators used as concrete inputs: one that requires two positional arguments, one that
  requires the keyword \<open>path\<close> and forbids the keyword \<open>force\<close>, one whose \<open>poll\<close>
  returns \<open>False\<close>, one whose \<open>poll\<close> raises, and one whose \<open>execute\<close> returns
  the invalid status \<open>MAYBE\<close>.
\<close>

definition two_args_operator :: Operator where
  "two_args_operator = base_operator\<lparr>idname := ''test.two_args'', min_args := Some 2\<rparr>"

definition kwargs_operator :: Operator where
  "kwargs_operator =
    base_operator\<lparr>idname := ''test.kwargs'', max_args := Some 1,
      kwargs_include := [''path''], kwargs_exclude := [''force'']\<rparr>"

definition poll_false_operator :: Operator where
  "poll_false_operator =
    base_operator\<lparr>idname := ''test.poll_false'',
      poll := (\<lambda>ctx args kwargs. (ctx, Inr (PyBool False)))\<rparr>"

definition poll_raises_operator :: Operator where
  "poll_raises_operator =
    base_operator\<lparr>idname := ''test.poll_raises'',
      poll := (\<lambda>ctx args kwargs. (ctx, Inl (Raised ''ZeroDivisionError'')))\<rparr>"

definition maybe_operator :: Operator where
  "maybe_operator =
    base_operator\<lparr>idname := ''test.maybe'',
      execute := (\<lambda>ctx args kwargs. (ctx, Inr (PyStr ''MAYBE'')))\<rparr>"

text \<open>
  An operator whose \<open>execute\<close> invokes the base operator on the context it was given
  and then returns \<open>FINISHED\<close>. The inner invocation reports nothing, so the clock
  reading handed to it does not matter.
\<close>

definition nested_operator :: Operator where
  "nested_operator =
    base_operator\<lparr>idname := ''test.nested'',
      execute := (\<lambda>ctx args kwargs.
        (fst (Operator_call base_operator ctx [] Map.empty 0), Inr (PyStr ''FINISHED'')))\<rparr>"

section \<open>Typed properties\<close>

text \<open>
  The numbers a numeric property holds and compares: Python integers and finite floats
  (\<open>Fin\<close>; Python compares an integer with a float exactly), \<open>float("-inf")\<close>,
  \<open>float("inf")\<close> and \<open>float("nan")\<close>. Every comparison with NaN is false.
\<close>

datatype number = NaN | NegInf | Fin real | PosInf

fun py_less :: "number \<Rightarrow> number \<Rightarrow> bool" where
  "py_less NaN y = False"
| "py_less x NaN = False"
| "py_less NegInf NegInf = False"
| "py_less NegInf y = True"
| "py_less (Fin a) NegInf = False"
| "py_less (Fin a) (Fin b) = (a < b)"
| "py_less (Fin a) PosInf = True"
| "py_less PosInf y = False"

fun py_le :: "number \<Rightarrow> number \<Rightarrow> bool" where
  "py_le NaN y = False"
| "py_le x NaN = False"
| "py_le NegInf y = True"
| "py_le (Fin a) NegInf = False"
| "py_le (Fin a) (Fin b) = (a \<le> b)"
| "py_le (Fin a) PosInf = True"
| "py_le PosInf PosInf = True"
| "py_le PosInf y = False"

text \<open>
  \<open>Property\<close>: the fields every constructor sets. \<open>IntProp\<close> and \<open>FloatProp\<close>
  declare the same further fields (they differ in the class attribute \<open>type\<close> only), so
  one record serves both; \<open>value_attr\<close> is the attribute \<open>value\<close>, \<open>min_val\<close> and
  \<open>max_val\<close> are \<open>min\<close> and \<open>max\<close>.
\<close>

record Property =
  name :: string
  description :: string

record NumProp = Property +
  default :: number
  value_attr :: number
  min_val :: number
  max_val :: number

type_synonym IntProp = NumProp
type_synonym FloatProp = NumProp

text \<open>\<open>Property.get\<close>, inherited by both numeric classes.\<close>

definition Property_get :: "NumProp \<Rightarrow> number" where
  "Property_get self = value_attr self"

text \<open>\<open>IntProp.__init__\<close>: a bound left \<open>None\<close> becomes an infinity.\<close>

definition IntProp_init ::
  "string \<Rightarrow> string \<Rightarrow> number \<Rightarrow> number option \<Rightarrow> number option \<Rightarrow> IntProp" where
  "IntProp_init nm descr dflt mn mx =
    \<lparr>name = nm, description = descr, default = dflt, value_attr = dflt,
     min_val = (case mn of None \<Rightarrow> NegInf | Some m \<Rightarrow> m),
     max_val = (case mx of None \<Rightarrow> PosInf | Some m \<Rightarrow> m)\<rparr>"

text \<open>\<open>IntProp.set\<close>: two independent tests, the second on the value the first left.\<close>

definition IntProp_set :: "IntProp \<Rightarrow> number \<Rightarrow> IntProp" where
  "IntProp_set self v =
    (let v1 = (if py_less v (min_val self) then min_val self else v);
         v2 = (if py_less (max_val self) v1 then max_val self else v1)
     in self\<lparr>value_attr := v2\<rparr>)"

text \<open>\<open>FloatProp.__init__\<close> and \<open>FloatProp.set\<close>.\<close>

definition FloatProp_init ::
  "string \<Rightarrow> string \<Rightarrow> number \<Rightarrow> number option \<Rightarrow> number option \<Rightarrow> FloatProp" where
  "FloatProp_init nm descr dflt mn mx =
    \<lparr>name = nm, description = descr, default = dflt, value_attr = dflt,
     min_val = (case mn of None \<Rightarrow> NegInf | Some m \<Rightarrow> m),
     max_val = (case mx of None \<Rightarrow> PosInf | Some m \<Rightarrow> m)\<rparr>"

definition FloatProp_set :: "FloatProp \<Rightarrow> number \<Rightarrow> FloatProp" where
  "FloatProp_set self v =
    (let v1 = (if py_less v (min_val self) then min_val self else v);
         v2 = (if py_less (max_val self) v1 then max_val self else v1)
     in self\<lparr>value_attr := v2\<rparr>)"

text \<open>Two properties with the bounds 0 and 10; the second starts out of bounds.\<close>

definition percent :: FloatProp where
  "percent = FloatProp_init ''percent'' '''' (Fin 5) (Some (Fin 0)) (Some (Fin 10))"

definition level :: IntProp where
  "level = IntProp_init ''level'' '''' (Fin 15) (Some (Fin 0)) (Some (Fin 10))"

subsection \<open>Enumerations\<close>

text \<open>
  Indexing a tuple: an index from \<open>-len\<close> to \<open>len - 1\<close> selects an element, the
  negative ones counting from the end; any other index raises \<open>IndexError\<close>.
\<close>

definition tuple_index :: "'a list \<Rightarrow> int \<Rightarrow> py_exception + 'a" where
  "tuple_index xs i =
    (if 0 \<le> i \<and> i < int (length xs) then Inr (xs ! nat i)
     else if - int (length xs) \<le> i \<and> i < 0 then Inr (xs ! nat (int (length xs) + i))
     else Inl IndexError)"

text \<open>
  \<open>EnumProp\<close>. An item is a tuple of strings that starts with the item's identifier
  (\<open>items: Tuple[Tuple[str]]\<close>): the identifier and the components after it.
\<close>

type_synonym enum_item = "string \<times> string list"

record EnumProp = Property +
  items :: "enum_item list"
  idx :: int

definition EnumProp_init :: "string \<Rightarrow> string \<Rightarrow> enum_item list \<Rightarrow> EnumProp" where
  "EnumProp_init nm descr its = \<lparr>name = nm, description = descr, items = its, idx = 0\<rparr>"

text \<open>\<open>EnumProp.get\<close>: \<open>self.items[self.idx][0]\<close>.\<close>

definition EnumProp_get :: "EnumProp \<Rightarrow> py_exception + string" where
  "EnumProp_get self =
    (case tuple_index (items self) (idx self) of
       Inl e \<Rightarrow> Inl e
     | Inr item \<Rightarrow> Inr (fst item))"

text \<open>\<open>EnumProp.set\<close>: \<open>min(idx, len(self.items) - 1)\<close>.\<close>

definition EnumProp_set :: "EnumProp \<Rightarrow> int \<Rightarrow> EnumProp" where
  "EnumProp_set self i = self\<lparr>idx := min i (int (length (items self)) - 1)\<rparr>"

definition abc :: EnumProp where
  "abc = EnumProp_init ''letter'' '''' [(''a'', []), (''b'', []), (''c'', [])]"

definition no_items :: EnumProp where
  "no_items = EnumProp_init ''nothing'' '''' []"

section \<open>Name-keyed containers\<close>

text \<open>\<open>OpCollection\<close> and \<open>OpsModule\<close>: a dictionary each, consulted by \<open>__getattr__\<close>.\<close>

record OpCollection =
  operators :: "string \<rightharpoonup> Operator"

record OpsModule =
  colls :: "string \<rightharpoonup> OpCollection"

definition OpCollection_getattr :: "OpCollection \<Rightarrow> string \<Rightarrow> py_exception + Operator" where
  "OpCollection_getattr self attr =
    (if attr \<in> dom (operators self) then Inr (the (operators self attr))
     else Inl (AttributeError (''OpCollection has no attribute '' @ attr)))"

definition OpsModule_getattr :: "OpsModule \<Rightarrow> string \<Rightarrow> py_exception + OpCollection" where
  "OpsModule_getattr self attr =
    (if attr \<in> dom (colls self) then Inr (the (colls self attr))
     else Inl (AttributeError (''OpsModule has no attribute '' @ attr)))"

text \<open>
  \<open>Scene\<close> and \<open>PropCollection\<close> keep what they hold as attributes of the object and
  ask the builtins \<open>hasattr\<close> and \<open>getattr\<close> for them. An object is modelled by the
  attributes that normal lookup finds on it. The builtin \<open>getattr\<close> tries normal lookup
  and, where that fails, calls the class's \<open>__getattr__\<close>; the builtin \<open>hasattr\<close>
  calls \<open>getattr\<close> and turns an \<open>AttributeError\<close>, and nothing else, into \<open>False\<close>.
\<close>

type_synonym 'v pyobject = "string \<rightharpoonup> 'v"

definition builtin_getattr ::
  "('v pyobject \<Rightarrow> string \<Rightarrow> py_exception + 'v) \<Rightarrow> 'v pyobject \<Rightarrow> string
     \<Rightarrow> py_exception + 'v" where
  "builtin_getattr dunder_getattr obj attr =
    (case obj attr of Some v \<Rightarrow> Inr v | None \<Rightarrow> dunder_getattr obj attr)"

definition builtin_hasattr ::
  "('v pyobject \<Rightarrow> string \<Rightarrow> py_exception + 'v) \<Rightarrow> 'v pyobject \<Rightarrow> string
     \<Rightarrow> py_exception + bool" where
  "builtin_hasattr dunder_getattr obj attr =
    (case builtin_getattr dunder_getattr obj attr of
       Inr v \<Rightarrow> Inr True
     | Inl (AttributeError msg) \<Rightarrow> Inr False
     | Inl e \<Rightarrow> Inl e)"

text \<open>
  \<open>Scene.__getattr__\<close> and \<open>PropCollection.__getattr__\<close>. Both call \<open>hasattr\<close> on
  the object itself, which may call them again; \<open>depth\<close> is the number of stack frames
  the interpreter still allows, and a call with none left raises \<open>RecursionError\<close>.
\<close>

primrec Scene_getattr :: "nat \<Rightarrow> 'v pyobject \<Rightarrow> string \<Rightarrow> py_exception + 'v" where
  "Scene_getattr 0 self attr = Inl RecursionError"
| "Scene_getattr (Suc depth) self attr =
    (case builtin_hasattr (Scene_getattr depth) self attr of
       Inl e \<Rightarrow> Inl e
     | Inr has \<Rightarrow>
         if has then builtin_getattr (Scene_getattr depth) self attr
         else Inl (AttributeError (''Scene has no attribute '' @ attr)))"

primrec PropCollection_getattr :: "nat \<Rightarrow> 'v pyobject \<Rightarrow> string \<Rightarrow> py_exception + 'v" where
  "PropCollection_getattr 0 self attr = Inl RecursionError"
| "PropCollection_getattr (Suc depth) self attr =
    (case builtin_hasattr (PropCollection_getattr depth) self attr of
       Inl e \<Rightarrow> Inl e
     | Inr has \<Rightarrow>
         if has then builtin_getattr (PropCollection_getattr depth) self attr
         else Inl (AttributeError (''PropCollection has no attribute '' @ attr)))"

text \<open>
  The objects the two constructors build: \<open>Scene.__init__\<close> (with the clock reading and
  the formatted date it obtains) and \<open>PropCollection.__init__\<close>.
\<close>

definition Scene_init :: "real \<Rightarrow> string \<Rightarrow> pyval pyobject" where
  "Scene_init now date =
    [''meta'' \<mapsto> PyBytes '''', ''time'' \<mapsto> PyFloat now, ''date'' \<mapsto> PyBytes date,
     ''is_saved'' \<mapsto> PyBool False, ''is_dirty'' \<mapsto> PyBool False]"

definition PropCollection_init :: "pyval pyobject" where
  "PropCollection_init = [''_values'' \<mapsto> PyDict []]"

definition OpCollection_init :: OpCollection where
  "OpCollection_init = \<lparr>operators = Map.empty\<rparr>"

definition OpsModule_init :: OpsModule where
  "OpsModule_init = \<lparr>colls = Map.empty\<rparr>"

section \<open>Operator invocation\<close>

subsection \<open>The two halves of \<open>__call__\<close>\<close>

lemma Operator_call_validation_fails:
  assumes "validation_fails self args kwargs"
  shows "\<exists>msg. Operator_call self ctx args kwargs now =
           (ctx\<lparr>num_changes := num_changes ctx + 1, last_report := Some (''ERROR'', msg),
                last_report_time := now\<rparr>, Inr (PyStr ''CANCELLED''))"
  using assms
  by (auto simp: validation_fails_def Operator_call_def report_def Let_def
      split: option.splits)

lemma Operator_call_validated:
  assumes "\<not> validation_fails self args kwargs"
  shows "Operator_call self ctx args kwargs now =
    (case poll self (ctx\<lparr>num_changes := num_changes ctx + 1\<rparr>) args kwargs of (ctx2, pr) \<Rightarrow>
          if truthy (case pr of Inl e \<Rightarrow> PyBool False | Inr p \<Rightarrow> p) then
            (case execute self ctx2 args kwargs of
               (ctx3, Inl e) \<Rightarrow> (ctx3, Inl e)
             | (ctx3, Inr status) \<Rightarrow>
                 if status \<noteq> PyStr ''FINISHED'' \<and> status \<noteq> PyStr ''CANCELLED'' then
                   (report ctx3 ''ERROR''
                      (''Invalid return in Operator '' @ idname self @ '' call.'') now,
                    Inr (PyStr ''FINISHED''))
                 else (ctx3, Inr PyNone))
          else
            (report ctx2 ''ERROR'' (''Poll in Operator '' @ idname self @ '' failed.'') now,
             Inr (PyStr ''CANCELLED'')))"
  using assms
  by (auto simp: validation_fails_def Operator_call_def Let_def split: option.splits)

text \<open>
  \<open>__call__\<close> writes \<open>num_changes\<close> once, before anything else; afterwards the counter
  is whatever the hooks that ran left in it.
\<close>

lemma Operator_call_num_changes:
  "num_changes (fst (Operator_call self ctx args kwargs now)) =
    (let ctx1 = ctx\<lparr>num_changes := num_changes ctx + 1\<rparr> in
     if validation_fails self args kwargs then num_changes ctx1
     else (case poll self ctx1 args kwargs of (ctx2, pr) \<Rightarrow>
       if truthy (case pr of Inl e \<Rightarrow> PyBool False | Inr p \<Rightarrow> p)
       then num_changes (fst (execute self ctx2 args kwargs))
       else num_changes ctx2))"
proof (cases "validation_fails self args kwargs")
  case True
  from Operator_call_validation_fails [OF True, of ctx now]
  obtain msg where "Operator_call self ctx args kwargs now =
           (ctx\<lparr>num_changes := num_changes ctx + 1, last_report := Some (''ERROR'', msg),
                last_report_time := now\<rparr>, Inr (PyStr ''CANCELLED''))" ..
  with True show ?thesis by simp
next
  case False
  show ?thesis
    by (simp add: Operator_call_validated [OF False] False report_def
        split: prod.splits sum.splits)
qed

text \<open>
  Where \<open>execute\<close> returns one of the two valid statuses, the call returns \<open>None\<close>
  and not that status; where \<open>execute\<close> raises, the exception leaves the call.
\<close>

lemma Operator_call_valid_status:
  assumes "\<not> validation_fails self args kwargs"
      and "poll self (ctx\<lparr>num_changes := num_changes ctx + 1\<rparr>) args kwargs = (ctx2, Inr p)"
      and "truthy p"
      and "execute self ctx2 args kwargs = (ctx3, Inr status)"
      and "status = PyStr ''FINISHED'' \<or> status = PyStr ''CANCELLED''"
  shows "Operator_call self ctx args kwargs now = (ctx3, Inr PyNone)"
  using assms(2-) by (auto simp: Operator_call_validated [OF assms(1)])

lemma Operator_call_execute_raises:
  assumes "\<not> validation_fails self args kwargs"
      and "poll self (ctx\<lparr>num_changes := num_changes ctx + 1\<rparr>) args kwargs = (ctx2, Inr p)"
      and "truthy p"
      and "execute self ctx2 args kwargs = (ctx3, Inl e)"
  shows "Operator_call self ctx args kwargs now = (ctx3, Inl e)"
  using assms(2-) by (simp add: Operator_call_validated [OF assms(1)])

subsection \<open>The status returned\<close>

text \<open>
  C1. The claim: every invocation returns a terminal status string, and where \<open>poll\<close>
  succeeds and \<open>execute\<close> returns \<open>FINISHED\<close> or \<open>CANCELLED\<close> the invocation returns
  that status unchanged. The code has no \<open>return val\<close> after the test of \<open>val\<close>: the
  base operator, whose \<open>poll\<close> returns \<open>True\<close> and whose \<open>execute\<close> returns
  \<open>FINISHED\<close>, invoked with no arguments, returns \<open>None\<close>.
\<close>

theorem Operator_call_base_returns_None:
  "Operator_call base_operator ctx0 [] Map.empty 5 = (ctx0\<lparr>num_changes := 1\<rparr>, Inr PyNone)
   \<and> snd (execute base_operator (ctx0\<lparr>num_changes := 1\<rparr>) [] Map.empty)
       = Inr (PyStr ''FINISHED'')"
  by (simp add: Operator_call_def base_operator_def ctx0_def Operator_poll_def
      Operator_execute_def)

subsection \<open>The change counter\<close>

text \<open>
  C2, as the claim states it: every invocation increases \<open>context.num_changes\<close> by
  exactly 1. A hook is user code working on the same context: an operator whose
  \<open>execute\<close> invokes another operator ends its own invocation with the counter greater
  by 2, the inner invocation having counted for itself.
\<close>

theorem Operator_call_nested_counterexample:
  "num_changes (fst (Operator_call nested_operator ctx0 [] Map.empty 5)) = num_changes ctx0 + 2
   \<and> num_changes (fst (Operator_call nested_operator ctx0 [] Map.empty 5))
       \<noteq> num_changes ctx0 + 1"
  by (simp add: Operator_call_def nested_operator_def base_operator_def ctx0_def
      Operator_poll_def Operator_execute_def)

text \<open>
  C2, amended: for every invocation of an operator whose hooks \<open>poll\<close> and
  \<open>execute\<close> hand \<open>context.num_changes\<close> back as they received it, the counter
  increases by exactly 1, once, whichever branch is taken: validation failure, poll
  failure (returned or raised), a valid status, an invalid status, and an exception from
  \<open>execute\<close>. What a hook itself adds to the counter comes on top of that one
  increment, as \<open>Operator_call_num_changes\<close> says for arbitrary hooks.
\<close>

theorem Operator_call_increments_num_changes:
  assumes frame_poll: "\<And>c a k. num_changes (fst (poll self c a k)) = num_changes c"
      and frame_execute: "\<And>c a k. num_changes (fst (execute self c a k)) = num_changes c"
  shows "num_changes (fst (Operator_call self ctx args kwargs now)) = num_changes ctx + 1"
proof -
  let ?ctx1 = "ctx\<lparr>num_changes := num_changes ctx + 1\<rparr>"
  obtain ctx2 pr where p: "poll self ?ctx1 args kwargs = (ctx2, pr)"
    by (cases "poll self ?ctx1 args kwargs")
  from frame_poll [of ?ctx1 args kwargs] p
  have c2: "num_changes ctx2 = num_changes ctx + 1" by simp
  from frame_execute [of ctx2 args kwargs] c2
  have c3: "num_changes (fst (execute self ctx2 args kwargs)) = num_changes ctx + 1" by simp
  show ?thesis
    by (simp add: Operator_call_num_changes p c2 c3 Let_def)
qed

theorem Operator_call_increments_num_changes_witness:
  "num_changes (fst (Operator_call two_args_operator ctx0 [PyInt 1] Map.empty 5))
      = num_changes ctx0 + 1
   \<and> num_changes (fst (Operator_call poll_false_operator ctx0 [] Map.empty 5))
      = num_changes ctx0 + 1
   \<and> num_changes (fst (Operator_call poll_raises_operator ctx0 [] Map.empty 5))
      = num_changes ctx0 + 1
   \<and> num_changes (fst (Operator_call base_operator ctx0 [] Map.empty 5))
      = num_changes ctx0 + 1
   \<and> num_changes (fst (Operator_call maybe_operator ctx0 [] Map.empty 5))
      = num_changes ctx0 + 1"
proof -
  have "num_changes (fst (Operator_call two_args_operator ctx0 [PyInt 1] Map.empty 5))
      = num_changes ctx0 + 1"
    by (rule Operator_call_increments_num_changes)
      (simp_all add: two_args_operator_def base_operator_def Operator_poll_def
        Operator_execute_def)
  moreover have "num_changes (fst (Operator_call poll_false_operator ctx0 [] Map.empty 5))
      = num_changes ctx0 + 1"
    by (rule Operator_call_increments_num_changes)
      (simp_all add: poll_false_operator_def base_operator_def Operator_poll_def
        Operator_execute_def)
  moreover have "num_changes (fst (Operator_call poll_raises_operator ctx0 [] Map.empty 5))
      = num_changes ctx0 + 1"
    by (rule Operator_call_increments_num_changes)
      (simp_all add: poll_raises_operator_def base_operator_def Operator_poll_def
        Operator_execute_def)
  moreover have "num_changes (fst (Operator_call base_operator ctx0 [] Map.empty 5))
      = num_changes ctx0 + 1"
    by (rule Operator_call_increments_num_changes)
      (simp_all add: base_operator_def Operator_poll_def Operator_execute_def)
  moreover have "num_changes (fst (Operator_call maybe_operator ctx0 [] Map.empty 5))
      = num_changes ctx0 + 1"
    by (rule Operator_call_increments_num_changes)
      (simp_all add: maybe_operator_def base_operator_def Operator_poll_def
        Operator_execute_def)
  ultimately show ?thesis by simp
qed

subsection \<open>An invalid status from \<open>execute\<close>\<close>

text \<open>
  C5. An invocation that passes validation and \<open>poll\<close>, and whose \<open>execute\<close> returns
  a status other than \<open>FINISHED\<close> and \<open>CANCELLED\<close>, leaves an \<open>ERROR\<close> report in
  \<open>last_report\<close> and returns \<open>FINISHED\<close>, both at once. \<open>ctx2\<close> and \<open>ctx3\<close> are
  the contexts the two hooks leave.
\<close>

theorem Operator_call_invalid_return:
  assumes "\<not> validation_fails self args kwargs"
      and "poll self (ctx\<lparr>num_changes := num_changes ctx + 1\<rparr>) args kwargs = (ctx2, Inr p)"
      and "truthy p"
      and "execute self ctx2 args kwargs = (ctx3, Inr status)"
      and "status \<noteq> PyStr ''FINISHED''" and "status \<noteq> PyStr ''CANCELLED''"
  shows "Operator_call self ctx args kwargs now =
           (ctx3\<lparr>last_report :=
                    Some (''ERROR'', ''Invalid return in Operator '' @ idname self @ '' call.''),
                  last_report_time := now\<rparr>,
            Inr (PyStr ''FINISHED''))"
  using assms(2-) by (simp add: Operator_call_validated [OF assms(1)] report_def)

theorem Operator_call_invalid_return_witness:
  "Operator_call maybe_operator ctx0 [] Map.empty 5 =
     (ctx0\<lparr>num_changes := 1,
            last_report := Some (''ERROR'', ''Invalid return in Operator test.maybe call.''),
            last_report_time := 5\<rparr>,
      Inr (PyStr ''FINISHED''))"
proof -
  have v: "\<not> validation_fails maybe_operator [] Map.empty"
    by (simp add: validation_fails_def maybe_operator_def base_operator_def)
  have p: "poll maybe_operator (ctx0\<lparr>num_changes := num_changes ctx0 + 1\<rparr>) [] Map.empty
             = (ctx0\<lparr>num_changes := num_changes ctx0 + 1\<rparr>, Inr (PyBool True))"
    by (simp add: maybe_operator_def base_operator_def Operator_poll_def)
  have e: "execute maybe_operator (ctx0\<lparr>num_changes := num_changes ctx0 + 1\<rparr>) [] Map.empty
             = (ctx0\<lparr>num_changes := num_changes ctx0 + 1\<rparr>, Inr (PyStr ''MAYBE''))"
    by (simp add: maybe_operator_def base_operator_def)
  from Operator_call_invalid_return [OF v p _ e, of 5]
  show ?thesis
    by (simp add: maybe_operator_def base_operator_def ctx0_def)
qed

subsection \<open>Validation failures\<close>

text \<open>
  C7. Where validation fails (fewer positional arguments than \<open>min_args\<close>, more than
  \<open>max_args\<close>, a keyword of \<open>kwargs_include\<close> missing or one of
  \<open>kwargs_exclude\<close> present), the invocation leaves an \<open>ERROR\<close> report in
  \<open>last_report\<close>, returns \<open>CANCELLED\<close>, and calls neither \<open>poll\<close> nor
  \<open>execute\<close>: the resulting context is the given one with the counter, the report and
  its time updated and nothing else, and the whole result is the same whatever the two
  hooks are.
\<close>

theorem Operator_call_validation_short_circuit:
  assumes "validation_fails self args kwargs"
  shows "(\<exists>msg. Operator_call self ctx args kwargs now =
           (ctx\<lparr>num_changes := num_changes ctx + 1, last_report := Some (''ERROR'', msg),
                last_report_time := now\<rparr>, Inr (PyStr ''CANCELLED'')))
       \<and> (\<forall>p e. Operator_call (self\<lparr>poll := p, execute := e\<rparr>) ctx args kwargs now
                 = Operator_call self ctx args kwargs now)"
proof
  show "\<exists>msg. Operator_call self ctx args kwargs now =
           (ctx\<lparr>num_changes := num_changes ctx + 1, last_report := Some (''ERROR'', msg),
                last_report_time := now\<rparr>, Inr (PyStr ''CANCELLED''))"
    by (rule Operator_call_validation_fails [OF assms])
next
  show "\<forall>p e. Operator_call (self\<lparr>poll := p, execute := e\<rparr>) ctx args kwargs now
                 = Operator_call self ctx args kwargs now"
    using assms
    by (auto simp: validation_fails_def Operator_call_def Let_def split: option.splits)
qed

theorem Operator_call_validation_short_circuit_witness:
  "validation_fails two_args_operator [PyInt 1] Map.empty
   \<and> Operator_call two_args_operator ctx0 [PyInt 1] Map.empty 5 =
     (ctx0\<lparr>num_changes := 1,
            last_report := Some (''ERROR'', ''Too few arguments in Operator test.two_args''),
            last_report_time := 5\<rparr>,
      Inr (PyStr ''CANCELLED''))
   \<and> (\<forall>p e. Operator_call (two_args_operator\<lparr>poll := p, execute := e\<rparr>) ctx0 [PyInt 1]
                Map.empty 5
              = Operator_call two_args_operator ctx0 [PyInt 1] Map.empty 5)
   \<and> validation_fails kwargs_operator [PyInt 1, PyInt 2] [''path'' \<mapsto> PyStr ''a.mp4'']
   \<and> (\<forall>p e. Operator_call (kwargs_operator\<lparr>poll := p, execute := e\<rparr>) ctx0
                [PyInt 1, PyInt 2] [''path'' \<mapsto> PyStr ''a.mp4''] 5
              = Operator_call kwargs_operator ctx0 [PyInt 1, PyInt 2]
                  [''path'' \<mapsto> PyStr ''a.mp4''] 5)
   \<and> validation_fails kwargs_operator [] Map.empty
   \<and> (\<forall>p e. Operator_call (kwargs_operator\<lparr>poll := p, execute := e\<rparr>) ctx0 [] Map.empty 5
              = Operator_call kwargs_operator ctx0 [] Map.empty 5)
   \<and> validation_fails kwargs_operator []
        [''path'' \<mapsto> PyStr ''a.mp4'', ''force'' \<mapsto> PyBool True]
   \<and> (\<forall>p e. Operator_call (kwargs_operator\<lparr>poll := p, execute := e\<rparr>) ctx0 []
                [''path'' \<mapsto> PyStr ''a.mp4'', ''force'' \<mapsto> PyBool True] 5
              = Operator_call kwargs_operator ctx0 []
                  [''path'' \<mapsto> PyStr ''a.mp4'', ''force'' \<mapsto> PyBool True] 5)"
proof -
  have v1: "validation_fails two_args_operator [PyInt 1] Map.empty"
    by (simp add: validation_fails_def two_args_operator_def base_operator_def)
  have c1: "Operator_call two_args_operator ctx0 [PyInt 1] Map.empty 5 =
     (ctx0\<lparr>num_changes := 1,
            last_report := Some (''ERROR'', ''Too few arguments in Operator test.two_args''),
            last_report_time := 5\<rparr>,
      Inr (PyStr ''CANCELLED''))"
    by (simp add: Operator_call_def report_def two_args_operator_def base_operator_def ctx0_def)
  have v2: "validation_fails kwargs_operator [PyInt 1, PyInt 2] [''path'' \<mapsto> PyStr ''a.mp4'']"
    by (simp add: validation_fails_def kwargs_operator_def base_operator_def)
  have v3: "validation_fails kwargs_operator [] Map.empty"
    by (simp add: validation_fails_def kwargs_operator_def base_operator_def)
  have v4: "validation_fails kwargs_operator []
        [''path'' \<mapsto> PyStr ''a.mp4'', ''force'' \<mapsto> PyBool True]"
    by (simp add: validation_fails_def kwargs_operator_def base_operator_def)
  from Operator_call_validation_short_circuit [OF v1, of ctx0 5]
    Operator_call_validation_short_circuit [OF v2, of ctx0 5]
    Operator_call_validation_short_circuit [OF v3, of ctx0 5]
    Operator_call_validation_short_circuit [OF v4, of ctx0 5]
    v1 v2 v3 v4 c1
  show ?thesis by blast
qed

subsection \<open>Poll failures\<close>

text \<open>
  C8. Where validation passes and \<open>poll\<close> raises or returns a false value, the two
  cases are treated alike: the invocation leaves an \<open>ERROR\<close> report about the poll in
  \<open>last_report\<close> of the context \<open>poll\<close> left, returns \<open>CANCELLED\<close>, and never
  calls \<open>execute\<close> (the result is the same whatever \<open>execute\<close> is).
\<close>

theorem Operator_call_poll_failure:
  assumes "\<not> validation_fails self args kwargs"
      and "poll self (ctx\<lparr>num_changes := num_changes ctx + 1\<rparr>) args kwargs = (ctx2, pr)"
      and "(\<exists>e. pr = Inl e) \<or> (\<exists>p. pr = Inr p \<and> \<not> truthy p)"
  shows "Operator_call self ctx args kwargs now =
           (ctx2\<lparr>last_report :=
                    Some (''ERROR'', ''Poll in Operator '' @ idname self @ '' failed.''),
                  last_report_time := now\<rparr>,
            Inr (PyStr ''CANCELLED''))
       \<and> (\<forall>e. Operator_call (self\<lparr>execute := e\<rparr>) ctx args kwargs now
                = Operator_call self ctx args kwargs now)"
proof -
  have v': "\<And>e. \<not> validation_fails (self\<lparr>execute := e\<rparr>) args kwargs"
    using assms(1) by (simp add: validation_fails_def)
  have f: "\<not> truthy (case pr of Inl e \<Rightarrow> PyBool False | Inr p \<Rightarrow> p)"
    using assms(3) by auto
  show ?thesis
    using assms(2) f
    by (simp add: Operator_call_validated [OF assms(1)] Operator_call_validated [OF v']
        report_def)
qed

theorem Operator_call_poll_failure_witness:
  "Operator_call poll_raises_operator ctx0 [] Map.empty 5 =
     (ctx0\<lparr>num_changes := 1,
            last_report := Some (''ERROR'', ''Poll in Operator test.poll_raises failed.''),
            last_report_time := 5\<rparr>,
      Inr (PyStr ''CANCELLED''))
   \<and> (\<forall>e. Operator_call (poll_raises_operator\<lparr>execute := e\<rparr>) ctx0 [] Map.empty 5
            = Operator_call poll_raises_operator ctx0 [] Map.empty 5)
   \<and> Operator_call poll_false_operator ctx0 [] Map.empty 5 =
     (ctx0\<lparr>num_changes := 1,
            last_report := Some (''ERROR'', ''Poll in Operator test.poll_false failed.''),
            last_report_time := 5\<rparr>,
      Inr (PyStr ''CANCELLED''))
   \<and> (\<forall>e. Operator_call (poll_false_operator\<lparr>execute := e\<rparr>) ctx0 [] Map.empty 5
            = Operator_call poll_false_operator ctx0 [] Map.empty 5)"
proof -
  let ?c1 = "ctx0\<lparr>num_changes := num_changes ctx0 + 1\<rparr>"
  have v1: "\<not> validation_fails poll_raises_operator [] Map.empty"
    by (simp add: validation_fails_def poll_raises_operator_def base_operator_def)
  have p1: "poll poll_raises_operator ?c1 [] Map.empty = (?c1, Inl (Raised ''ZeroDivisionError''))"
    by (simp add: poll_raises_operator_def base_operator_def)
  have v2: "\<not> validation_fails poll_false_operator [] Map.empty"
    by (simp add: validation_fails_def poll_false_operator_def base_operator_def)
  have p2: "poll poll_false_operator ?c1 [] Map.empty = (?c1, Inr (PyBool False))"
    by (simp add: poll_false_operator_def base_operator_def)
  have i1: "idname poll_raises_operator = ''test.poll_raises''"
    by (simp add: poll_raises_operator_def)
  have i2: "idname poll_false_operator = ''test.poll_false''"
    by (simp add: poll_false_operator_def)
  have n: "num_changes ctx0 + 1 = 1"
    by (simp add: ctx0_def)
  from Operator_call_poll_failure [OF v1 p1, of 5] Operator_call_poll_failure [OF v2 p2, of 5]
  show ?thesis
    by (simp add: i1 i2 n)
qed

section \<open>Numeric properties\<close>

text \<open>
  C6, as the claim states it: for bounds with \<open>min \<le> max\<close> and every input \<open>v\<close>,
  after \<open>set(v)\<close> the value lies within the bounds. A float property takes
  \<open>float("nan")\<close> as an input; both tests of \<open>set\<close> are false for it, so it is stored as
  it is, and it compares with neither bound.
\<close>

theorem FloatProp_set_NaN_counterexample:
  "py_le (min_val percent) (max_val percent)
   \<and> \<not> (py_le (min_val percent) (Property_get (FloatProp_set percent NaN))
        \<and> py_le (Property_get (FloatProp_set percent NaN)) (max_val percent))"
  by (simp add: percent_def FloatProp_init_def FloatProp_set_def Property_get_def)

text \<open>
  C6, amended: for every integer or float property with \<open>min \<le> max\<close> and every input
  \<open>v\<close> other than NaN (every input of an integer property is one), after \<open>set(v)\<close> the
  value returned by \<open>get()\<close> lies within the bounds; it is \<open>v\<close> where \<open>v\<close> lies
  within them, \<open>min\<close> where \<open>v\<close> is below and \<open>max\<close> where \<open>v\<close> is above; and
  \<open>set\<close> leaves the bounds as they were.
\<close>

theorem NumProp_set_clamps:
  assumes "py_le (min_val self) (max_val self)" and "v \<noteq> NaN"
  shows "(let g = Property_get (IntProp_set self v) in
            py_le (min_val self) g \<and> py_le g (max_val self)
          \<and> (py_le (min_val self) v \<and> py_le v (max_val self) \<longrightarrow> g = v)
          \<and> (py_less v (min_val self) \<longrightarrow> g = min_val self)
          \<and> (py_less (max_val self) v \<longrightarrow> g = max_val self))
       \<and> min_val (IntProp_set self v) = min_val self
       \<and> max_val (IntProp_set self v) = max_val self
       \<and> (let g = Property_get (FloatProp_set self v) in
            py_le (min_val self) g \<and> py_le g (max_val self)
          \<and> (py_le (min_val self) v \<and> py_le v (max_val self) \<longrightarrow> g = v)
          \<and> (py_less v (min_val self) \<longrightarrow> g = min_val self)
          \<and> (py_less (max_val self) v \<longrightarrow> g = max_val self))
       \<and> min_val (FloatProp_set self v) = min_val self
       \<and> max_val (FloatProp_set self v) = max_val self"
  using assms
  by (cases "min_val self"; cases "max_val self"; cases v)
     (simp_all add: IntProp_set_def FloatProp_set_def Property_get_def Let_def)

theorem NumProp_set_clamps_witness:
  "Property_get (IntProp_set level (Fin 15)) = Fin 10
   \<and> Property_get (IntProp_set level (Fin (-3))) = Fin 0
   \<and> Property_get (IntProp_set level (Fin 5)) = Fin 5
   \<and> Property_get (FloatProp_set percent (Fin 15)) = Fin 10
   \<and> Property_get (FloatProp_set percent (Fin (-3))) = Fin 0
   \<and> Property_get (FloatProp_set percent (Fin 5)) = Fin 5
   \<and> Property_get (FloatProp_set percent PosInf) = Fin 10"
proof -
  have b: "py_le (min_val level) (max_val level)" "py_le (min_val percent) (max_val percent)"
    by (simp_all add: level_def percent_def IntProp_init_def FloatProp_init_def)
  have m: "min_val level = Fin 0" "max_val level = Fin 10"
    "min_val percent = Fin 0" "max_val percent = Fin 10"
    by (simp_all add: level_def percent_def IntProp_init_def FloatProp_init_def)
  from NumProp_set_clamps [OF b(1), of "Fin 15"] NumProp_set_clamps [OF b(1), of "Fin (-3)"]
    NumProp_set_clamps [OF b(1), of "Fin 5"]
    NumProp_set_clamps [OF b(2), of "Fin 15"] NumProp_set_clamps [OF b(2), of "Fin (-3)"]
    NumProp_set_clamps [OF b(2), of "Fin 5"] NumProp_set_clamps [OF b(2), of PosInf]
  show ?thesis
    by (simp add: m Let_def)
qed

text \<open>What \<open>set\<close> does with NaN, for the record: it stores it.\<close>

lemma FloatProp_set_NaN:
  "Property_get (FloatProp_set self NaN) = NaN"
  by (cases "max_val self") (simp_all add: FloatProp_set_def Property_get_def)

text \<open>
  C9. The constructors of \<open>IntProp\<close> and \<open>FloatProp\<close> store the default as the value
  without clamping: \<open>get()\<close> on the new property returns the default whatever the bounds
  are, so the new property is within its bounds exactly when the default was.
\<close>

theorem NumProp_init_keeps_default:
  "Property_get (IntProp_init nm descr d mn mx) = d
   \<and> (py_le (min_val (IntProp_init nm descr d mn mx))
          (Property_get (IntProp_init nm descr d mn mx))
       \<and> py_le (Property_get (IntProp_init nm descr d mn mx))
          (max_val (IntProp_init nm descr d mn mx)))
     = (py_le (case mn of None \<Rightarrow> NegInf | Some m \<Rightarrow> m) d
        \<and> py_le d (case mx of None \<Rightarrow> PosInf | Some m \<Rightarrow> m))
   \<and> Property_get (FloatProp_init nm descr d mn mx) = d
   \<and> (py_le (min_val (FloatProp_init nm descr d mn mx))
          (Property_get (FloatProp_init nm descr d mn mx))
       \<and> py_le (Property_get (FloatProp_init nm descr d mn mx))
          (max_val (FloatProp_init nm descr d mn mx)))
     = (py_le (case mn of None \<Rightarrow> NegInf | Some m \<Rightarrow> m) d
        \<and> py_le d (case mx of None \<Rightarrow> PosInf | Some m \<Rightarrow> m))"
  by (simp add: IntProp_init_def FloatProp_init_def Property_get_def)

text \<open>
  \<open>IntProp(default=15, min=0, max=10)\<close> is out of bounds as constructed, and its first
  \<open>set\<close>, even of the value it already holds, brings it within them.
\<close>

lemma level_out_of_bounds:
  "Property_get level = Fin 15 \<and> max_val level = Fin 10
   \<and> \<not> py_le (Property_get level) (max_val level)
   \<and> Property_get (IntProp_set level (Property_get level)) = Fin 10"
  by (simp add: level_def IntProp_init_def IntProp_set_def Property_get_def)

section \<open>Enumeration properties\<close>

text \<open>
  C3, as the claim states it: with \<open>N\<close> items, \<open>set(i)\<close> leaves \<open>0 \<le> index\<close>
  whenever \<open>i \<le> N - 1\<close>. \<open>set\<close> bounds the index from above only: with three items,
  \<open>set(-1)\<close> stores \<open>-1\<close>.
\<close>

theorem EnumProp_set_negative_counterexample:
  "(-1::int) \<le> int (length (items abc)) - 1 \<and> \<not> (0 \<le> idx (EnumProp_set abc (-1)))"
  by (simp add: abc_def EnumProp_init_def EnumProp_set_def)

text \<open>
  C3, amended: with \<open>N\<close> items, \<open>set(i)\<close> stores \<open>i\<close> itself whenever \<open>i \<le> N - 1\<close>
  (a negative \<open>i\<close> included), so \<open>0 \<le> index \<le> N - 1\<close> holds whenever
  \<open>0 \<le> i \<le> N - 1\<close>; for \<open>i \<ge> N\<close> it stores \<open>N - 1\<close>; the stored index never
  exceeds \<open>N - 1\<close>, and the items are untouched.
\<close>

theorem EnumProp_set_index:
  "(i \<le> int (length (items self)) - 1 \<longrightarrow> idx (EnumProp_set self i) = i)
   \<and> (0 \<le> i \<and> i \<le> int (length (items self)) - 1 \<longrightarrow>
        0 \<le> idx (EnumProp_set self i)
        \<and> idx (EnumProp_set self i) \<le> int (length (items self)) - 1)
   \<and> (int (length (items self)) \<le> i \<longrightarrow>
        idx (EnumProp_set self i) = int (length (items self)) - 1)
   \<and> idx (EnumProp_set self i) \<le> int (length (items self)) - 1
   \<and> items (EnumProp_set self i) = items self"
  by (simp add: EnumProp_set_def)

theorem EnumProp_set_index_witness:
  "idx (EnumProp_set abc 5) = 2 \<and> idx (EnumProp_set abc 3) = 2 \<and> idx (EnumProp_set abc 1) = 1
   \<and> idx (EnumProp_set abc (-1)) = -1"
  using EnumProp_set_index [of 5 abc] EnumProp_set_index [of 3 abc]
    EnumProp_set_index [of 1 abc] EnumProp_set_index [of "-1" abc]
  by (simp add: abc_def EnumProp_init_def)

lemma tuple_index_in_range:
  assumes "- int (length xs) \<le> i" and "i < int (length xs)"
  shows "\<exists>x \<in> set xs. tuple_index xs i = Inr x"
proof (cases "0 \<le> i")
  case True
  with assms have "nat i < length xs" by simp
  with True assms show ?thesis by (auto simp: tuple_index_def)
next
  case False
  with assms have "nat (int (length xs) + i) < length xs" by simp
  with False assms show ?thesis by (auto simp: tuple_index_def)
qed

lemma tuple_index_out_of_range:
  "i < - int (length xs) \<or> int (length xs) \<le> i \<Longrightarrow> tuple_index xs i = Inl IndexError"
  by (auto simp: tuple_index_def)

text \<open>
  C10. \<open>get\<close> indexes the items with no guard. It raises \<open>IndexError\<close> where the items
  are empty, and where the index is below \<open>-len(items)\<close>, which \<open>set\<close> lets through;
  it returns the identifier of one of the items where there are items and the index lies
  from \<open>-len(items)\<close> to \<open>len(items) - 1\<close>.
\<close>

theorem EnumProp_get_index_range:
  "(items self = [] \<longrightarrow> EnumProp_get self = Inl IndexError)
   \<and> (idx self < - int (length (items self)) \<longrightarrow> EnumProp_get self = Inl IndexError)
   \<and> (i < - int (length (items self)) \<longrightarrow> EnumProp_get (EnumProp_set self i) = Inl IndexError)
   \<and> (items self \<noteq> [] \<and> - int (length (items self)) \<le> idx self
        \<and> idx self \<le> int (length (items self)) - 1 \<longrightarrow>
      (\<exists>item \<in> set (items self). EnumProp_get self = Inr (fst item)))"
proof (intro conjI impI)
  assume "items self = []"
  then show "EnumProp_get self = Inl IndexError"
    by (simp add: EnumProp_get_def tuple_index_def)
next
  assume "idx self < - int (length (items self))"
  then show "EnumProp_get self = Inl IndexError"
    by (simp add: EnumProp_get_def tuple_index_out_of_range)
next
  assume "i < - int (length (items self))"
  then show "EnumProp_get (EnumProp_set self i) = Inl IndexError"
    by (simp add: EnumProp_get_def EnumProp_set_def tuple_index_out_of_range)
next
  assume "items self \<noteq> [] \<and> - int (length (items self)) \<le> idx self
        \<and> idx self \<le> int (length (items self)) - 1"
  then have "\<exists>x \<in> set (items self). tuple_index (items self) (idx self) = Inr x"
    by (intro tuple_index_in_range) simp_all
  then obtain x where "x \<in> set (items self)" "tuple_index (items self) (idx self) = Inr x"
    by blast
  then show "\<exists>item \<in> set (items self). EnumProp_get self = Inr (fst item)"
    by (intro bexI [of _ x]) (simp_all add: EnumProp_get_def)
qed

theorem EnumProp_get_index_range_witness:
  "EnumProp_get no_items = Inl IndexError
   \<and> EnumProp_get (EnumProp_set no_items 0) = Inl IndexError
   \<and> EnumProp_get (EnumProp_set abc (-4)) = Inl IndexError
   \<and> EnumProp_get (EnumProp_set abc (-3)) = Inr ''a''
   \<and> EnumProp_get (EnumProp_set abc (-1)) = Inr ''c''
   \<and> EnumProp_get abc = Inr ''a''
   \<and> EnumProp_get (EnumProp_set abc 5) = Inr ''c''"
  using EnumProp_get_index_range [of no_items 0] EnumProp_get_index_range [of abc "-4"]
    EnumProp_get_index_range [of "EnumProp_set abc (-4)" 0]
    EnumProp_get_index_range [of "EnumProp_set abc (-3)" 0]
  by (simp add: abc_def no_items_def EnumProp_init_def EnumProp_set_def EnumProp_get_def
      tuple_index_def)

section \<open>Resolving a name that is not there\<close>

text \<open>
  \<open>Scene\<close> and \<open>PropCollection\<close> ask \<open>hasattr\<close>, which comes back to the same
  \<open>__getattr__\<close> with the same name: for a name that normal lookup does not find, the
  \<open>raise AttributeError\<close> of the \<open>else\<close> branch is never reached, whatever the depth
  of stack available.
\<close>

lemma Scene_getattr_absent:
  "self attr = None \<Longrightarrow> Scene_getattr depth self attr = Inl RecursionError"
  by (induction depth) (simp_all add: builtin_hasattr_def builtin_getattr_def)

lemma PropCollection_getattr_absent:
  "self attr = None \<Longrightarrow> PropCollection_getattr depth self attr = Inl RecursionError"
  by (induction depth) (simp_all add: builtin_hasattr_def builtin_getattr_def)

text \<open>
  C4. The claim: in each of the name-keyed containers, resolving a name that is not
  registered ends with a distinguishable not-found condition. Reading the attribute
  \<open>x_res\<close> of a new \<open>PropCollection\<close>, or the attribute \<open>output\<close> of a new
  \<open>Scene\<close>, ends with \<open>RecursionError\<close> at every stack depth and never with the
  \<open>AttributeError\<close> that the code means to raise.
\<close>

theorem getattr_absent_RecursionError:
  "(\<forall>depth. builtin_getattr (PropCollection_getattr depth) PropCollection_init ''x_res''
              = Inl RecursionError)
   \<and> (\<forall>depth. builtin_getattr (Scene_getattr depth) (Scene_init 0 ''2021-01-01 00-00-00'')
              ''output'' = Inl RecursionError)"
  by (simp add: builtin_getattr_def PropCollection_init_def Scene_init_def
      PropCollection_getattr_absent Scene_getattr_absent)

text \<open>
  The two registries of operators do what the claim says: a name that is not a key of
  the dictionary ends with \<open>AttributeError\<close>, and a registered name resolves to what was
  registered under it.
\<close>

theorem registry_getattr:
  "(operators coll attr = None \<longrightarrow>
      OpCollection_getattr coll attr
        = Inl (AttributeError (''OpCollection has no attribute '' @ attr)))
   \<and> (colls ops attr = None \<longrightarrow>
      OpsModule_getattr ops attr
        = Inl (AttributeError (''OpsModule has no attribute '' @ attr)))
   \<and> (\<forall>op. operators coll attr = Some op \<longrightarrow> OpCollection_getattr coll attr = Inr op)
   \<and> (\<forall>c. colls ops attr = Some c \<longrightarrow> OpsModule_getattr ops attr = Inr c)"
  by (auto simp: OpCollection_getattr_def OpsModule_getattr_def dom_def)

theorem registry_getattr_witness:
  "OpCollection_getattr OpCollection_init ''foo''
     = Inl (AttributeError ''OpCollection has no attribute foo'')
   \<and> OpsModule_getattr OpsModule_init ''mycoll''
     = Inl (AttributeError ''OpsModule has no attribute mycoll'')
   \<and> OpCollection_getattr (OpCollection_init\<lparr>operators := [''foo'' \<mapsto> base_operator]\<rparr>) ''foo''
     = Inr base_operator
   \<and> OpsModule_getattr (OpsModule_init\<lparr>colls := [''mycoll'' \<mapsto> OpCollection_init]\<rparr>)
       ''mycoll''
     = Inr OpCollection_init"
  using registry_getattr [of OpCollection_init "''foo''" OpsModule_init]
    registry_getattr [of OpCollection_init "''mycoll''" OpsModule_init]
    registry_getattr [of "OpCollection_init\<lparr>operators := [''foo'' \<mapsto> base_operator]\<rparr>"
      "''foo''" "OpsModule_init"]
    registry_getattr [of OpCollection_init "''mycoll''"
      "OpsModule_init\<lparr>colls := [''mycoll'' \<mapsto> OpCollection_init]\<rparr>"]
  by (simp add: OpCollection_init_def OpsModule_init_def)

end
